theory Spec2Isabelle
  imports Complex_Main
begin

section \<open>Data of the socket handler\<close>

text \<open>
  The development embeds \<^verbatim>\<open>backend/src/socket/socketHandler.js\<close> (the second module
  in \<^verbatim>\<open>src/backend/src/services/PaymentService.js\<close>): the authentication middleware, the
  connection handler with its fifteen event listeners, and \<^verbatim>\<open>startChatTimer\<close>.
  Identifiers, room names and event names are JavaScript strings.
\<close>

type_synonym user_id = string
type_synonym socket_id = string
type_synonym chat_id = string
type_synonym room = string
type_synonym msg_id = string
type_synonym request_id = string
type_synonym payment_id = string
type_synonym call_id = string

text \<open>A thrown JavaScript error; \<^verbatim>\<open>error.message\<close> is its string.\<close>

datatype js_error = Error string | ReferenceError string | TypeError string

fun message_of :: "js_error \<Rightarrow> string" where
  "message_of (Error m) = m"
| "message_of (ReferenceError m) = m"
| "message_of (TypeError m) = m"

text \<open>The socket object as the handlers read it: \<^verbatim>\<open>socket.id\<close>, \<^verbatim>\<open>socket.userId\<close>,
  \<^verbatim>\<open>socket.userRole\<close>.\<close>

record socket =
  sid :: socket_id
  userId :: user_id
  userRole :: string

text \<open>Documents returned by the services.\<close>

record participant =
  p_userId :: user_id
  p_role :: string

record payment_details =
  totalDuration :: nat
  autoExtend :: bool

record chat =
  chat_id :: chat_id
  chat_type :: string
  participants :: "participant list"
  paymentDetails :: "payment_details option"

record message =
  m_id :: msg_id
  m_content :: string

record earner_profile =
  isActive :: bool
  hourlyRate :: rat
  services :: "string \<Rightarrow> bool"

record user =
  username :: string
  role :: string
  earnerProfile :: "earner_profile option"

text \<open>The payload of \<^verbatim>\<open>send-message\<close> and the argument of \<^verbatim>\<open>ChatService.saveMessage\<close>.\<close>

record msg_data =
  d_chatId :: chat_id
  d_content :: string
  d_type :: string
  d_media :: "string option"

record save_args =
  s_chatId :: chat_id
  s_senderId :: user_id
  s_content :: string
  s_type :: string
  s_media :: "string option"

record chat_payment_args =
  cp_userId :: user_id
  cp_earnerId :: user_id
  cp_amount :: rat
  cp_duration :: nat
  cp_chatType :: string

record extension_args =
  x_chatId :: chat_id
  x_userId :: user_id
  x_amount :: rat
  x_minutes :: nat

subsection \<open>Collaborators\<close>

text \<open>
  \<^verbatim>\<open>ChatService\<close>, \<^verbatim>\<open>UserService\<close>, \<^verbatim>\<open>jwt\<close> and the three
  \<^verbatim>\<open>PaymentService\<close> methods the handler calls are not part of the sources, so what
  each call returns is a parameter. A call either throws (\<open>Inl\<close>, or \<open>Some\<close> error for a call
  whose result is not used) or returns; a lookup may return \<^verbatim>\<open>null\<close> (\<open>None\<close>).

  The module never declares or imports \<^verbatim>\<open>UserService\<close>: \<open>UserService env = None\<close> is the
  module as written, where evaluating the identifier raises a \<^verbatim>\<open>ReferenceError\<close>, and
  \<open>Some f\<close> is a host that provides it as a global. The exported \<^verbatim>\<open>PaymentService\<close>
  object of the sources has no \<^verbatim>\<open>acceptPayment\<close>, \<^verbatim>\<open>createChatPayment\<close> or
  \<^verbatim>\<open>createExtensionPayment\<close>: \<open>None\<close> there is the call of an undefined property
  (a \<^verbatim>\<open>TypeError\<close>), \<open>Some f\<close> an object that has the method.
  Amounts are JavaScript numbers, idealised here as rationals.
\<close>

record env =
  jwt_verify :: "string \<Rightarrow> js_error + (user_id \<times> string)"
  getChat :: "chat_id \<Rightarrow> js_error + chat option"
  checkChatTimeRemaining :: "chat_id \<Rightarrow> js_error + bool"
  saveMessage :: "save_args \<Rightarrow> js_error + message"
  updateLastMessage :: "chat_id \<Rightarrow> message \<Rightarrow> js_error option"
  markAsRead :: "msg_id \<Rightarrow> user_id \<Rightarrow> js_error option"
  updateUserPresence :: "chat_id \<Rightarrow> user_id \<Rightarrow> bool \<Rightarrow> js_error option"
  endChat :: "chat_id \<Rightarrow> js_error option"
  createPrivateChat :: "request_id \<Rightarrow> js_error + chat option"
  UserService :: "(user_id \<Rightarrow> js_error + user option) option"
  acceptPayment :: "(request_id \<Rightarrow> js_error option) option"
  createChatPayment :: "(chat_payment_args \<Rightarrow> js_error + payment_id) option"
  createExtensionPayment :: "(extension_args \<Rightarrow> js_error + payment_id) option"

text \<open>The calls that write to a collaborator, in the order the handlers make them.\<close>

datatype svc_call =
    UpdateUserPresence chat_id user_id bool
  | SaveMessage save_args
  | UpdateLastMessage chat_id message
  | MarkAsRead msg_id user_id
  | CreateChatPayment chat_payment_args
  | AcceptPayment request_id
  | CreatePrivateChat request_id
  | CreateExtensionPayment extension_args
  | EndChat chat_id

subsection \<open>Emitted events\<close>

text \<open>
  The four ways the module emits: \<^verbatim>\<open>socket.emit\<close>, \<^verbatim>\<open>io.to(room).emit\<close>,
  \<^verbatim>\<open>socket.to(room).emit\<close> (the room without the sender) and
  \<^verbatim>\<open>socket.broadcast.emit\<close> (every connection but the sender).
\<close>

datatype target =
    ToSocket socket_id
  | ToRoom room
  | ToRoomExcept room socket_id
  | BroadcastExcept socket_id

datatype payload =
    PNone
  | PUser user_id
  | PUserStatus user_id string
  | PMessage message
  | PError string
  | PNotification chat_id string user_id
  | PTyping user_id bool
  | PRead msg_id user_id
  | PPaymentRequest payment_id rat nat string
  | PChatRequest payment_id user_id nat rat
  | PChatStarted chat_id nat
  | PChatId chat_id
  | PExtensionRequest payment_id rat nat
  | PIncomingCall call_id user_id string bool
  | PCallId call_id
  | PSignal string user_id
  | PPresence user_id string "string option"

record emission =
  target :: target
  event :: string
  payload :: payload
  recipients :: "socket_id list"

subsection \<open>The state the handlers act on\<close>

text \<open>
  Redis hashes (\<^verbatim>\<open>hSet\<close>, \<^verbatim>\<open>expire\<close>), the connected sockets and the rooms of each
  (\<^verbatim>\<open>socket.rooms\<close>), the log of emitted events with the connections each reached, the log of
  writing service calls, the pending \<^verbatim>\<open>setTimeout\<close> callbacks of \<^verbatim>\<open>startChatTimer\<close>,
  the clock in milliseconds, and the rejections that left an \<^verbatim>\<open>async\<close> listener uncaught.
  Redis and socket.io are taken to work; console output is not part of the state.
\<close>

datatype rval = RStr string | RTime nat

record timer =
  t_chat :: chat_id
  deadline :: nat

record world =
  redis :: "string \<Rightarrow> (string \<rightharpoonup> rval)"
  ttl :: "string \<rightharpoonup> nat"
  sockets :: "socket_id list"
  rooms :: "socket_id \<Rightarrow> room set"
  outbox :: "emission list"
  calls :: "svc_call list"
  timers :: "timer list"
  now :: nat
  unhandled :: "(socket_id \<times> js_error) list"

definition hSet :: "world \<Rightarrow> string \<Rightarrow> string \<Rightarrow> rval \<Rightarrow> world" where
  "hSet st key field v = st\<lparr>redis := (redis st)(key := (redis st key)(field \<mapsto> v))\<rparr>"

definition expire :: "world \<Rightarrow> string \<Rightarrow> nat \<Rightarrow> world" where
  "expire st key secs = st\<lparr>ttl := (ttl st)(key \<mapsto> secs)\<rparr>"

definition join :: "world \<Rightarrow> socket_id \<Rightarrow> room \<Rightarrow> world" where
  "join st s r = st\<lparr>rooms := (rooms st)(s := insert r (rooms st s))\<rparr>"

definition recipients_of :: "world \<Rightarrow> target \<Rightarrow> socket_id list" where
  "recipients_of st tgt =
     (case tgt of
        ToSocket s \<Rightarrow> [s]
      | ToRoom r \<Rightarrow> filter (\<lambda>s. r \<in> rooms st s) (sockets st)
      | ToRoomExcept r x \<Rightarrow> filter (\<lambda>s. r \<in> rooms st s \<and> s \<noteq> x) (sockets st)
      | BroadcastExcept x \<Rightarrow> filter (\<lambda>s. s \<noteq> x) (sockets st))"

definition emit :: "world \<Rightarrow> target \<Rightarrow> string \<Rightarrow> payload \<Rightarrow> world" where
  "emit st tgt ev p =
     st\<lparr>outbox := outbox st @
        [\<lparr>target = tgt, event = ev, payload = p, recipients = recipients_of st tgt\<rparr>]\<rparr>"

definition log_call :: "world \<Rightarrow> svc_call \<Rightarrow> world" where
  "log_call st c = st\<lparr>calls := calls st @ [c]\<rparr>"

text \<open>The \<^verbatim>\<open>catch\<close> block the guarded listeners share:
  \<^verbatim>\<open>socket.emit('error', { message: error.message })\<close>.\<close>

definition catch_error :: "world \<Rightarrow> socket \<Rightarrow> js_error \<Rightarrow> world" where
  "catch_error st sock e = emit st (ToSocket (sid sock)) ''error'' (PError (message_of e))"

text \<open>An error thrown in an \<^verbatim>\<open>async\<close> listener with no \<^verbatim>\<open>try\<close>: the promise rejects
  and nothing handles it.\<close>

definition reject :: "world \<Rightarrow> socket \<Rightarrow> js_error \<Rightarrow> world" where
  "reject st sock e = st\<lparr>unhandled := unhandled st @ [(sid sock, e)]\<rparr>"

section \<open>Chat events\<close>

definition on_join_chat :: "env \<Rightarrow> world \<Rightarrow> socket \<Rightarrow> chat_id \<Rightarrow> world" where
  "on_join_chat env st sock c =
     (let st1 = join st (sid sock) (''chat:'' @ c);
          st2 = log_call st1 (UpdateUserPresence c (userId sock) True)
      in case updateUserPresence env c (userId sock) True of
           Some e \<Rightarrow> reject st2 sock e
         | None \<Rightarrow> emit st2 (ToRoomExcept (''chat:'' @ c) (sid sock)) ''user-joined''
                     (PUser (userId sock)))"

text \<open>The \<^verbatim>\<open>forEach\<close> over \<^verbatim>\<open>chat.participants\<close> at the end of \<^verbatim>\<open>send-message\<close>.\<close>

definition notify_participants ::
  "world \<Rightarrow> socket \<Rightarrow> chat_id \<Rightarrow> message \<Rightarrow> participant list \<Rightarrow> world" where
  "notify_participants st sock c m ps =
     foldl (\<lambda>acc p.
        if p_userId p \<noteq> userId sock
        then emit acc (ToRoom (''user:'' @ p_userId p)) ''message-notification''
               (PNotification c (m_content m) (userId sock))
        else acc) st ps"

text \<open>\<^verbatim>\<open>send-message\<close> from \<^verbatim>\<open>// Save message\<close> on.\<close>

definition send_message_save :: "env \<Rightarrow> world \<Rightarrow> socket \<Rightarrow> msg_data \<Rightarrow> chat \<Rightarrow> world" where
  "send_message_save env st sock d ch =
     (let args = \<lparr>s_chatId = d_chatId d, s_senderId = userId sock, s_content = d_content d,
                  s_type = d_type d, s_media = d_media d\<rparr>;
          st1 = log_call st (SaveMessage args)
      in case saveMessage env args of
           Inl e \<Rightarrow> catch_error st1 sock e
         | Inr m \<Rightarrow>
             (let st2 = emit st1 (ToRoom (''chat:'' @ d_chatId d)) ''new-message'' (PMessage m);
                  st3 = log_call st2 (UpdateLastMessage (d_chatId d) m)
              in case updateLastMessage env (d_chatId d) m of
                   Some e \<Rightarrow> catch_error st3 sock e
                 | None \<Rightarrow> notify_participants st3 sock (d_chatId d) m (participants ch)))"

definition on_send_message :: "env \<Rightarrow> world \<Rightarrow> socket \<Rightarrow> msg_data \<Rightarrow> world" where
  "on_send_message env st sock d =
     (case getChat env (d_chatId d) of
        Inl e \<Rightarrow> catch_error st sock e
      | Inr None \<Rightarrow> catch_error st sock (TypeError ''Cannot read properties of null'')
      | Inr (Some ch) \<Rightarrow>
          if chat_type ch = ''private_paid'' then
            (case checkChatTimeRemaining env (d_chatId d) of
               Inl e \<Rightarrow> catch_error st sock e
             | Inr hasTime \<Rightarrow>
                 if \<not> hasTime
                 then emit st (ToSocket (sid sock)) ''chat-error'' (PError ''Chat time expired'')
                 else send_message_save env st sock d ch)
          else send_message_save env st sock d ch)"

definition on_typing :: "world \<Rightarrow> socket \<Rightarrow> chat_id \<Rightarrow> bool \<Rightarrow> world" where
  "on_typing st sock c isTyping =
     emit st (ToRoomExcept (''chat:'' @ c) (sid sock)) ''typing-indicator''
       (PTyping (userId sock) isTyping)"

text \<open>\<^verbatim>\<open>read-receipt\<close> awaits \<^verbatim>\<open>markAsRead\<close> outside any \<^verbatim>\<open>try\<close>.\<close>

definition on_read_receipt :: "env \<Rightarrow> world \<Rightarrow> socket \<Rightarrow> msg_id \<Rightarrow> chat_id \<Rightarrow> world" where
  "on_read_receipt env st sock mid c =
     (let st1 = log_call st (MarkAsRead mid (userId sock))
      in case markAsRead env mid (userId sock) of
           Some e \<Rightarrow> reject st1 sock e
         | None \<Rightarrow> emit st1 (ToRoomExcept (''chat:'' @ c) (sid sock)) ''message-read''
                     (PRead mid (userId sock)))"

section \<open>Payment events\<close>

definition on_request_private_chat ::
  "env \<Rightarrow> world \<Rightarrow> socket \<Rightarrow> user_id \<Rightarrow> nat \<Rightarrow> string \<Rightarrow> world" where
  "on_request_private_chat env st sock earnerId duration chatType =
     (case UserService env of
        None \<Rightarrow> catch_error st sock (ReferenceError ''UserService is not defined'')
      | Some getUser \<Rightarrow>
     (case getUser earnerId of
        Inl e \<Rightarrow> catch_error st sock e
      | Inr None \<Rightarrow> catch_error st sock (TypeError ''Cannot read properties of null'')
      | Inr (Some earner) \<Rightarrow>
     (case earnerProfile earner of
        None \<Rightarrow> catch_error st sock (TypeError ''Cannot read properties of undefined'')
      | Some prof \<Rightarrow>
          if \<not> isActive prof
          then emit st (ToSocket (sid sock)) ''error'' (PError ''Earner is not available'')
          else
            (let rate = hourlyRate prof / 60;
                 amount = rate * of_nat duration;
                 args = \<lparr>cp_userId = userId sock, cp_earnerId = earnerId, cp_amount = amount,
                          cp_duration = duration, cp_chatType = chatType\<rparr>
             in case createChatPayment env of
                  None \<Rightarrow> catch_error st sock
                            (TypeError ''PaymentService.createChatPayment is not a function'')
                | Some create \<Rightarrow>
                    (let st1 = log_call st (CreateChatPayment args)
                     in case create args of
                          Inl e \<Rightarrow> catch_error st1 sock e
                        | Inr pid \<Rightarrow>
                            (let st2 = emit st1 (ToSocket (sid sock)) ''payment-request''
                                         (PPaymentRequest pid amount duration (username earner))
                             in emit st2 (ToRoomExcept (''user:'' @ earnerId) (sid sock))
                                  ''chat-request''
                                  (PChatRequest pid (userId sock) duration amount)))))))"

text \<open>
  The delay \<^verbatim>\<open>setTimeout\<close> really uses: Node sets a delay below 1 or above
  \<^verbatim>\<open>2 ** 31 - 1\<close> milliseconds to 1.
\<close>

definition timeout_delay :: "nat \<Rightarrow> nat" where
  "timeout_delay ms = (if 1 \<le> ms \<and> ms \<le> 2147483647 then ms else 1)"

text \<open>
  \<^verbatim>\<open>startChatTimer\<close>: \<^verbatim>\<open>setTimeout\<close> schedules the callback for the delay
  \<^verbatim>\<open>duration * 60 * 1000\<close>; the next statement,
  \<^verbatim>\<open>chatTimers.set(chatId, timer)\<close>, reads an identifier that no scope of the module
  declares, so it throws. The function returns the error it throws with the state it leaves.
\<close>

definition startChatTimer :: "world \<Rightarrow> chat_id \<Rightarrow> nat \<Rightarrow> js_error option \<times> world" where
  "startChatTimer st c duration =
     (let st1 = st\<lparr>timers := timers st @
                     [\<lparr>t_chat = c,
                       deadline = now st + timeout_delay (duration * 60 * 1000)\<rparr>]\<rparr>
      in (Some (ReferenceError ''chatTimers is not defined''), st1))"

text \<open>\<^verbatim>\<open>accept-chat-request\<close> from \<^verbatim>\<open>// Start chat timer\<close> on: the call inside the
  \<^verbatim>\<open>try\<close> and the \<^verbatim>\<open>catch\<close> around it.\<close>

definition accept_chat_request_start :: "world \<Rightarrow> socket \<Rightarrow> chat_id \<Rightarrow> nat \<Rightarrow> world" where
  "accept_chat_request_start st sock c duration =
     (case startChatTimer st c duration of
        (Some e, st1) \<Rightarrow> catch_error st1 sock e
      | (None, st1) \<Rightarrow> st1)"

definition on_accept_chat_request :: "env \<Rightarrow> world \<Rightarrow> socket \<Rightarrow> request_id \<Rightarrow> world" where
  "on_accept_chat_request env st sock requestId =
     (case acceptPayment env of
        None \<Rightarrow> catch_error st sock
                  (TypeError ''PaymentService.acceptPayment is not a function'')
      | Some accept \<Rightarrow>
     (let st1 = log_call st (AcceptPayment requestId)
      in case accept requestId of
           Some e \<Rightarrow> catch_error st1 sock e
         | None \<Rightarrow>
     (let st2 = log_call st1 (CreatePrivateChat requestId)
      in case createPrivateChat env requestId of
           Inl e \<Rightarrow> catch_error st2 sock e
         | Inr None \<Rightarrow> catch_error st2 sock (TypeError ''Cannot read properties of null'')
         | Inr (Some ch) \<Rightarrow>
     (case paymentDetails ch of
        None \<Rightarrow> catch_error st2 sock (TypeError ''Cannot read properties of undefined'')
      | Some pd \<Rightarrow>
          (let st3 = emit st2 (ToRoom (''chat:'' @ chat_id ch)) ''chat-started''
                       (PChatStarted (chat_id ch) (totalDuration pd))
           in accept_chat_request_start st3 sock (chat_id ch) (totalDuration pd))))))"

text \<open>
  \<^verbatim>\<open>extend-chat\<close>. In \<^verbatim>\<open>UserService.getUser(chat.participants.find(...).userId)\<close>
  the callee is evaluated before the argument, so an unbound \<^verbatim>\<open>UserService\<close> throws
  before \<^verbatim>\<open>chat\<close> is read.
\<close>

definition on_extend_chat :: "env \<Rightarrow> world \<Rightarrow> socket \<Rightarrow> chat_id \<Rightarrow> nat \<Rightarrow> world" where
  "on_extend_chat env st sock c additionalMinutes =
     (case getChat env c of
        Inl e \<Rightarrow> catch_error st sock e
      | Inr chopt \<Rightarrow>
     (case UserService env of
        None \<Rightarrow> catch_error st sock (ReferenceError ''UserService is not defined'')
      | Some getUser \<Rightarrow>
     (case chopt of
        None \<Rightarrow> catch_error st sock (TypeError ''Cannot read properties of null'')
      | Some ch \<Rightarrow>
     (case find (\<lambda>p. p_role p = ''earner'') (participants ch) of
        None \<Rightarrow> catch_error st sock (TypeError ''Cannot read properties of undefined'')
      | Some p \<Rightarrow>
     (case getUser (p_userId p) of
        Inl e \<Rightarrow> catch_error st sock e
      | Inr None \<Rightarrow> catch_error st sock (TypeError ''Cannot read properties of null'')
      | Inr (Some earner) \<Rightarrow>
     (case earnerProfile earner of
        None \<Rightarrow> catch_error st sock (TypeError ''Cannot read properties of undefined'')
      | Some prof \<Rightarrow>
          (let rate = hourlyRate prof / 60;
               amount = rate * of_nat additionalMinutes;
               args = \<lparr>x_chatId = c, x_userId = userId sock, x_amount = amount,
                        x_minutes = additionalMinutes\<rparr>
           in case createExtensionPayment env of
                None \<Rightarrow> catch_error st sock
                          (TypeError ''PaymentService.createExtensionPayment is not a function'')
              | Some create \<Rightarrow>
                  (let st1 = log_call st (CreateExtensionPayment args)
                   in case create args of
                        Inl e \<Rightarrow> catch_error st1 sock e
                      | Inr pid \<Rightarrow>
                          emit st1 (ToSocket (sid sock)) ''extension-payment-request''
                            (PExtensionRequest pid amount additionalMinutes)))))))))"

section \<open>Call events\<close>

text \<open>Decimal digits of \<^verbatim>\<open>Date.now()\<close> inside the template string of the call id.\<close>

fun show_nat :: "nat \<Rightarrow> string" where
  "show_nat n =
     (if n < 10 then [''0123456789'' ! n]
      else show_nat (n div 10) @ [''0123456789'' ! (n mod 10)])"

declare show_nat.simps [simp del]

text \<open>\<^verbatim>\<open>call-user\<close> has no \<^verbatim>\<open>try\<close>: what it throws is an unhandled rejection.\<close>

definition on_call_user ::
  "env \<Rightarrow> world \<Rightarrow> socket \<Rightarrow> user_id \<Rightarrow> string \<Rightarrow> bool \<Rightarrow> world" where
  "on_call_user env st sock uid type isVideo =
     (case UserService env of
        None \<Rightarrow> reject st sock (ReferenceError ''UserService is not defined'')
      | Some getUser \<Rightarrow>
     (case getUser uid of
        Inl e \<Rightarrow> reject st sock e
      | Inr None \<Rightarrow> reject st sock (TypeError ''Cannot read properties of null'')
      | Inr (Some u) \<Rightarrow>
     (case (if role u = ''female_earner''
            then (case earnerProfile u of
                    None \<Rightarrow> Inl (TypeError ''Cannot read properties of undefined'')
                  | Some prof \<Rightarrow> Inr (\<not> services prof type))
            else Inr False) of
        Inl e \<Rightarrow> reject st sock e
      | Inr True \<Rightarrow>
          emit st (ToSocket (sid sock)) ''error'' (PError ''This service is not available'')
      | Inr False \<Rightarrow>
          (let callId = ''call_'' @ show_nat (now st) @ ''_'' @ userId sock @ ''_'' @ uid;
               st1 = emit st (ToRoomExcept (''user:'' @ uid) (sid sock)) ''incoming-call''
                       (PIncomingCall callId (userId sock) type isVideo)
           in emit st1 (ToSocket (sid sock)) ''call-initiated'' (PCallId callId)))))"

definition on_accept_call :: "world \<Rightarrow> socket \<Rightarrow> call_id \<Rightarrow> world" where
  "on_accept_call st sock callId = emit st (ToRoom callId) ''call-accepted'' PNone"

definition on_reject_call :: "world \<Rightarrow> socket \<Rightarrow> call_id \<Rightarrow> world" where
  "on_reject_call st sock callId = emit st (ToRoom callId) ''call-rejected'' PNone"

definition on_join_call :: "world \<Rightarrow> socket \<Rightarrow> call_id \<Rightarrow> world" where
  "on_join_call st sock callId = join st (sid sock) callId"

definition on_call_signal :: "world \<Rightarrow> socket \<Rightarrow> call_id \<Rightarrow> string \<Rightarrow> world" where
  "on_call_signal st sock callId signal =
     emit st (ToRoomExcept callId (sid sock)) ''call-signal'' (PSignal signal (userId sock))"

definition on_end_call :: "world \<Rightarrow> socket \<Rightarrow> call_id \<Rightarrow> world" where
  "on_end_call st sock callId = emit st (ToRoom callId) ''call-ended'' PNone"

section \<open>Presence events and disconnect\<close>

text \<open>\<^verbatim>\<open>if (customStatus)\<close> holds for a non-empty string.\<close>

definition on_update_presence :: "world \<Rightarrow> socket \<Rightarrow> string \<Rightarrow> string option \<Rightarrow> world" where
  "on_update_presence st sock status customStatus =
     (let key = ''user:'' @ userId sock;
          st1 = hSet st key ''status'' (RStr status);
          st2 = (case customStatus of
                   None \<Rightarrow> st1
                 | Some cs \<Rightarrow> if cs \<noteq> [] then hSet st1 key ''customStatus'' (RStr cs) else st1)
      in emit st2 (BroadcastExcept (sid sock)) ''presence-update''
           (PPresence (userId sock) status customStatus))"

text \<open>
  \<^verbatim>\<open>disconnect\<close>: the status is written without reading the stored \<^verbatim>\<open>socketId\<close>;
  \<^verbatim>\<open>lastSeen\<close> is the ISO string of the current instant (\<open>RTime\<close>); the loop leaves every
  room still in \<^verbatim>\<open>socket.rooms\<close> but the one named by its own id.
\<close>

definition on_disconnect :: "world \<Rightarrow> socket \<Rightarrow> world" where
  "on_disconnect st sock =
     (let key = ''user:'' @ userId sock;
          st1 = hSet st key ''status'' (RStr ''offline'');
          st2 = hSet st1 key ''lastSeen'' (RTime (now st1));
          st3 = emit st2 (BroadcastExcept (sid sock)) ''user-status''
                  (PUserStatus (userId sock) ''offline'')
      in st3\<lparr>rooms := (rooms st3)(sid sock := rooms st3 (sid sock) \<inter> {sid sock})\<rparr>)"

section \<open>Connecting\<close>

text \<open>\<^verbatim>\<open>io.use\<close>: a missing or empty token, or one \<^verbatim>\<open>jwt.verify\<close> rejects, ends in
  \<^verbatim>\<open>Authentication error\<close>; otherwise the socket gets its identity and Redis records it.\<close>

definition auth_middleware ::
  "env \<Rightarrow> world \<Rightarrow> socket_id \<Rightarrow> string option \<Rightarrow> (js_error + socket) \<times> world" where
  "auth_middleware env st s token =
     (case token of
        None \<Rightarrow> (Inl (Error ''Authentication error''), st)
      | Some tok \<Rightarrow>
          if tok = [] then (Inl (Error ''Authentication error''), st)
          else
            (case jwt_verify env tok of
               Inl e \<Rightarrow> (Inl (Error ''Authentication error''), st)
             | Inr (uid, r) \<Rightarrow>
                 (let key = ''user:'' @ uid;
                      st1 = hSet st key ''socketId'' (RStr s);
                      st2 = hSet st1 key ''status'' (RStr ''online'');
                      st3 = expire st2 key 86400
                  in (Inr \<lparr>sid = s, userId = uid, userRole = r\<rparr>, st3))))"

text \<open>The body of \<^verbatim>\<open>io.on('connection', ...)\<close> before the listeners are registered.\<close>

definition on_connection :: "world \<Rightarrow> socket \<Rightarrow> world" where
  "on_connection st sock =
     (let st1 = join st (sid sock) (''user:'' @ userId sock);
          st2 = emit st1 (ToSocket (sid sock)) ''connected'' (PUser (userId sock))
      in emit st2 (BroadcastExcept (sid sock)) ''user-status''
           (PUserStatus (userId sock) ''online''))"

text \<open>What socket.io does around the module: an accepted socket is added to the connected
  ones and joins the room of its own id; a closed one is no longer connected and, before
  \<^verbatim>\<open>disconnect\<close> is delivered, has left all its rooms (\<^verbatim>\<open>leaveAll\<close>), its own
  included.\<close>

definition open_socket :: "world \<Rightarrow> socket_id \<Rightarrow> world" where
  "open_socket st s = st\<lparr>sockets := sockets st @ [s], rooms := (rooms st)(s := insert s (rooms st s))\<rparr>"

definition close_socket :: "world \<Rightarrow> socket_id \<Rightarrow> world" where
  "close_socket st s = st\<lparr>sockets := removeAll s (sockets st), rooms := (rooms st)(s := {})\<rparr>"

definition connect :: "env \<Rightarrow> world \<Rightarrow> socket_id \<Rightarrow> string option \<Rightarrow> world" where
  "connect env st s token =
     (case auth_middleware env st s token of
        (Inl e, st1) \<Rightarrow> st1
      | (Inr sock, st1) \<Rightarrow> on_connection (open_socket st1 s) sock)"

section \<open>Dispatch\<close>

text \<open>The names the connection handler registers a listener for, in source order.\<close>

definition registered_events :: "string list" where
  "registered_events =
     [''join-chat'', ''send-message'', ''typing'', ''read-receipt'', ''request-private-chat'',
      ''accept-chat-request'', ''extend-chat'', ''call-user'', ''accept-call'', ''reject-call'',
      ''join-call'', ''call-signal'', ''end-call'', ''update-presence'', ''disconnect'']"

text \<open>An inbound event with its payload; \<open>Other\<close> is an event the client emits under any
  name that has no constructor of its own, with whatever payload.\<close>

datatype inbound =
    JoinChat chat_id
  | SendMessage msg_data
  | Typing chat_id bool
  | ReadReceipt msg_id chat_id
  | RequestPrivateChat user_id nat string
  | AcceptChatRequest request_id
  | ExtendChat chat_id nat
  | CallUser user_id string bool
  | AcceptCall call_id
  | RejectCall call_id
  | JoinCall call_id
  | CallSignal call_id string
  | EndCall call_id
  | UpdatePresence string "string option"
  | Disconnect
  | Other string string

fun event_name :: "inbound \<Rightarrow> string" where
  "event_name (JoinChat _) = ''join-chat''"
| "event_name (SendMessage _) = ''send-message''"
| "event_name (Typing _ _) = ''typing''"
| "event_name (ReadReceipt _ _) = ''read-receipt''"
| "event_name (RequestPrivateChat _ _ _) = ''request-private-chat''"
| "event_name (AcceptChatRequest _) = ''accept-chat-request''"
| "event_name (ExtendChat _ _) = ''extend-chat''"
| "event_name (CallUser _ _ _) = ''call-user''"
| "event_name (AcceptCall _) = ''accept-call''"
| "event_name (RejectCall _) = ''reject-call''"
| "event_name (JoinCall _) = ''join-call''"
| "event_name (CallSignal _ _) = ''call-signal''"
| "event_name (EndCall _) = ''end-call''"
| "event_name (UpdatePresence _ _) = ''update-presence''"
| "event_name Disconnect = ''disconnect''"
| "event_name (Other n _) = n"

fun listener :: "env \<Rightarrow> world \<Rightarrow> socket \<Rightarrow> inbound \<Rightarrow> world" where
  "listener env st sock (JoinChat c) = on_join_chat env st sock c"
| "listener env st sock (SendMessage d) = on_send_message env st sock d"
| "listener env st sock (Typing c b) = on_typing st sock c b"
| "listener env st sock (ReadReceipt m c) = on_read_receipt env st sock m c"
| "listener env st sock (RequestPrivateChat e d t) = on_request_private_chat env st sock e d t"
| "listener env st sock (AcceptChatRequest r) = on_accept_chat_request env st sock r"
| "listener env st sock (ExtendChat c m) = on_extend_chat env st sock c m"
| "listener env st sock (CallUser u t v) = on_call_user env st sock u t v"
| "listener env st sock (AcceptCall c) = on_accept_call st sock c"
| "listener env st sock (RejectCall c) = on_reject_call st sock c"
| "listener env st sock (JoinCall c) = on_join_call st sock c"
| "listener env st sock (CallSignal c s) = on_call_signal st sock c s"
| "listener env st sock (EndCall c) = on_end_call st sock c"
| "listener env st sock (UpdatePresence s c) = on_update_presence st sock s c"
| "listener env st sock Disconnect = on_disconnect (close_socket st (sid sock)) sock"
| "listener env st sock (Other n p) = st"

text \<open>An event reaches a listener only under a registered name; any other is dropped.\<close>

definition handle :: "env \<Rightarrow> world \<Rightarrow> socket \<Rightarrow> inbound \<Rightarrow> world" where
  "handle env st sock ev =
     (if event_name ev \<in> set registered_events then listener env st sock ev else st)"

section \<open>Timers\<close>

text \<open>
  The callback \<^verbatim>\<open>startChatTimer\<close> hands to \<^verbatim>\<open>setTimeout\<close>: it ends the chat, then
  notifies the room, then reads the chat again; the branch on \<^verbatim>\<open>autoExtend\<close> is empty, and
  the \<^verbatim>\<open>catch\<close> only logs to the console.
\<close>

definition timer_callback :: "env \<Rightarrow> world \<Rightarrow> timer \<Rightarrow> world" where
  "timer_callback env st tm =
     (let st1 = log_call st (EndChat (t_chat tm))
      in case endChat env (t_chat tm) of
           Some e \<Rightarrow> st1
         | None \<Rightarrow>
             (let st2 = emit st1 (ToRoom (''chat:'' @ t_chat tm)) ''chat-time-ended''
                          (PChatId (t_chat tm))
              in case getChat env (t_chat tm) of
                   Inl e \<Rightarrow> st2
                 | Inr None \<Rightarrow> st2
                 | Inr (Some ch) \<Rightarrow>
                     (case paymentDetails ch of None \<Rightarrow> st2 | Some pd \<Rightarrow> st2)))"

text \<open>
  The clock moves to \<open>t\<close>: every timeout due by then runs once, earliest deadline first, and
  is gone (\<^verbatim>\<open>setTimeout\<close> is single-shot); the others stay pending.
\<close>

definition advance :: "env \<Rightarrow> nat \<Rightarrow> world \<Rightarrow> world" where
  "advance env t st =
     foldl (timer_callback env)
       (st\<lparr>timers := filter (\<lambda>tm. \<not> deadline tm \<le> t) (timers st), now := max (now st) t\<rparr>)
       (sort_key deadline (filter (\<lambda>tm. deadline tm \<le> t) (timers st)))"

text \<open>A run of the server: connections, inbound events and the passing of time, each with
  the collaborators' behaviour at that moment.\<close>

datatype step = Connect socket_id "string option" | Inbound socket inbound | Tick nat

fun do_step :: "world \<Rightarrow> env \<times> step \<Rightarrow> world" where
  "do_step st (env, Connect s token) = connect env st s token"
| "do_step st (env, Inbound sock ev) = handle env st sock ev"
| "do_step st (env, Tick t) = advance env t st"

definition run :: "world \<Rightarrow> (env \<times> step) list \<Rightarrow> world" where
  "run st steps = foldl do_step st steps"

text \<open>A server that has just started.\<close>

definition world0 :: world where
  "world0 = \<lparr>redis = (\<lambda>_. Map.empty), ttl = Map.empty, sockets = [], rooms = (\<lambda>_. {}),
             outbox = [], calls = [], timers = [], now = 0, unhandled = []\<rparr>"

section \<open>Example data\<close>

text \<open>Two connections, a paid chat between their users, an earner who offers chat but no
  voice calls, and collaborators whose every call succeeds.\<close>

definition alice :: socket where
  "alice = \<lparr>sid = ''s1'', userId = ''u1'', userRole = ''user''\<rparr>"

definition bob :: socket where
  "bob = \<lparr>sid = ''s2'', userId = ''u2'', userRole = ''user''\<rparr>"

definition paid_chat :: chat where
  "paid_chat =
     \<lparr>chat_id = ''c1'', chat_type = ''private_paid'',
      participants = [\<lparr>p_userId = ''u1'', p_role = ''user''\<rparr>,
                      \<lparr>p_userId = ''u2'', p_role = ''earner''\<rparr>],
      paymentDetails = Some \<lparr>totalDuration = 2, autoExtend = False\<rparr>\<rparr>"

definition earner_u2 :: user where
  "earner_u2 =
     \<lparr>username = ''bea'', role = ''female_earner'',
      earnerProfile = Some \<lparr>isActive = True, hourlyRate = 600,
                             services = (\<lambda>t. t = ''chat'')\<rparr>\<rparr>"

definition env_ok :: env where
  "env_ok =
     \<lparr>jwt_verify = (\<lambda>tok. Inr (tok, ''user'')),
      getChat = (\<lambda>c. Inr (Some paid_chat)),
      checkChatTimeRemaining = (\<lambda>c. Inr True),
      saveMessage = (\<lambda>a. Inr \<lparr>m_id = ''m1'', m_content = s_content a\<rparr>),
      updateLastMessage = (\<lambda>c m. None),
      markAsRead = (\<lambda>m u. None),
      updateUserPresence = (\<lambda>c u b. None),
      endChat = (\<lambda>c. None),
      createPrivateChat = (\<lambda>r. Inr (Some paid_chat)),
      UserService = Some (\<lambda>u. Inr (Some earner_u2)),
      acceptPayment = Some (\<lambda>r. None),
      createChatPayment = Some (\<lambda>a. Inr ''p1''),
      createExtensionPayment = Some (\<lambda>a. Inr ''p2'')\<rparr>"

definition hello :: msg_data where
  "hello = \<lparr>d_chatId = ''c1'', d_content = ''hello'', d_type = ''text'', d_media = None\<rparr>"

text \<open>Both connected; only the second has joined the chat room.\<close>

definition two_sockets :: world where
  "two_sockets =
     world0\<lparr>sockets := [''s1'', ''s2''],
            rooms := (\<lambda>_. {})(''s1'' := {''s1'', ''user:u1''},
                               ''s2'' := {''s2'', ''user:u2'', ''chat:c1''})\<rparr>"


text \<open>Further example data: a third connection whose user takes no part in the chat; the
  state after one user connected twice; two users in a call room.\<close>

definition carol :: socket where
  "carol = \<lparr>sid = ''s3'', userId = ''u3'', userRole = ''user''\<rparr>"

definition three_sockets :: world where
  "three_sockets =
     world0\<lparr>sockets := [''s1'', ''s2'', ''s3''],
            rooms := (\<lambda>_. {})(''s1'' := {''s1'', ''user:u1'', ''chat:c1''},
                               ''s2'' := {''s2'', ''user:u2'', ''chat:c1''},
                               ''s3'' := {''s3'', ''user:u3''})\<rparr>"

definition reconnected :: world where
  "reconnected =
     run world0 [(env_ok, Connect ''s1'' (Some ''u1'')), (env_ok, Connect ''s2'' (Some ''u1''))]"

definition in_call :: world where
  "in_call =
     run world0 [(env_ok, Connect ''s1'' (Some ''u1'')), (env_ok, Connect ''s2'' (Some ''u2'')),
                 (env_ok, Inbound alice (JoinCall ''call_0_u1_u2'')),
                 (env_ok, Inbound bob (JoinCall ''call_0_u1_u2''))]"

text \<open>
  The collaborators as the sources have them: \<^verbatim>\<open>UserService\<close> bound nowhere and a
  \<^verbatim>\<open>PaymentService\<close> without the three methods; \<^verbatim>\<open>ChatService\<close> and \<^verbatim>\<open>jwt\<close>,
  which the sources do not contain, answer as above. With them, two users connect and both
  join the room of the paid chat.
\<close>

definition env_src :: env where
  "env_src = env_ok\<lparr>UserService := None, acceptPayment := None, createChatPayment := None,
                    createExtensionPayment := None\<rparr>"

definition chatting :: world where
  "chatting =
     run world0 [(env_src, Connect ''s1'' (Some ''u1'')), (env_src, Connect ''s2'' (Some ''u2'')),
                 (env_src, Inbound alice (JoinChat ''c1'')),
                 (env_src, Inbound bob (JoinChat ''c1''))]"

section \<open>Observations used in the statements\<close>

text \<open>How many \<^verbatim>\<open>chat-time-ended\<close> events were emitted to the room of a chat, how often
  \<^verbatim>\<open>endChat\<close> was called for it, and the timeouts still pending for it.\<close>

definition ended_events :: "chat_id \<Rightarrow> world \<Rightarrow> nat" where
  "ended_events c st =
     length (filter (\<lambda>e. event e = ''chat-time-ended'' \<and> target e = ToRoom (''chat:'' @ c)
                          \<and> payload e = PChatId c) (outbox st))"

definition end_calls :: "chat_id \<Rightarrow> world \<Rightarrow> nat" where
  "end_calls c st = length (filter (\<lambda>x. x = EndChat c) (calls st))"


text \<open>The step is the \<^verbatim>\<open>disconnect\<close> of the connection \<open>s\<close>.\<close>

definition is_disconnect_of :: "socket_id \<Rightarrow> step \<Rightarrow> bool" where
  "is_disconnect_of s stp =
     (case stp of Inbound sock ev \<Rightarrow> ev = Disconnect \<and> sid sock = s | _ \<Rightarrow> False)"

section \<open>Basic facts\<close>

subsection \<open>What the primitive operations leave alone\<close>

lemma emit_sel [simp]:
  "calls (emit st t e p) = calls st"
  "timers (emit st t e p) = timers st"
  "rooms (emit st t e p) = rooms st"
  "sockets (emit st t e p) = sockets st"
  "redis (emit st t e p) = redis st"
  "now (emit st t e p) = now st"
  "unhandled (emit st t e p) = unhandled st"
  by (simp_all add: emit_def)

lemma catch_error_sel [simp]:
  "calls (catch_error st sock e) = calls st"
  "timers (catch_error st sock e) = timers st"
  "rooms (catch_error st sock e) = rooms st"
  "sockets (catch_error st sock e) = sockets st"
  "redis (catch_error st sock e) = redis st"
  "now (catch_error st sock e) = now st"
  "unhandled (catch_error st sock e) = unhandled st"
  by (simp_all add: catch_error_def)

lemma log_call_sel [simp]:
  "calls (log_call st c) = calls st @ [c]"
  "timers (log_call st c) = timers st"
  "rooms (log_call st c) = rooms st"
  "sockets (log_call st c) = sockets st"
  "redis (log_call st c) = redis st"
  "now (log_call st c) = now st"
  "outbox (log_call st c) = outbox st"
  "unhandled (log_call st c) = unhandled st"
  by (simp_all add: log_call_def)

lemma reject_sel [simp]:
  "calls (reject st sock e) = calls st"
  "timers (reject st sock e) = timers st"
  "rooms (reject st sock e) = rooms st"
  "sockets (reject st sock e) = sockets st"
  "redis (reject st sock e) = redis st"
  "now (reject st sock e) = now st"
  "outbox (reject st sock e) = outbox st"
  "unhandled (reject st sock e) = unhandled st @ [(sid sock, e)]"
  by (simp_all add: reject_def)

lemma hSet_sel [simp]:
  "calls (hSet st k f v) = calls st"
  "timers (hSet st k f v) = timers st"
  "rooms (hSet st k f v) = rooms st"
  "sockets (hSet st k f v) = sockets st"
  "now (hSet st k f v) = now st"
  "outbox (hSet st k f v) = outbox st"
  "unhandled (hSet st k f v) = unhandled st"
  by (simp_all add: hSet_def)

lemma expire_sel [simp]:
  "calls (expire st k n) = calls st"
  "timers (expire st k n) = timers st"
  "rooms (expire st k n) = rooms st"
  "sockets (expire st k n) = sockets st"
  "now (expire st k n) = now st"
  "outbox (expire st k n) = outbox st"
  "redis (expire st k n) = redis st"
  by (simp_all add: expire_def)

lemma join_sel [simp]:
  "calls (join st s r) = calls st"
  "timers (join st s r) = timers st"
  "rooms (join st s r) = (rooms st)(s := insert r (rooms st s))"
  "sockets (join st s r) = sockets st"
  "now (join st s r) = now st"
  "outbox (join st s r) = outbox st"
  "redis (join st s r) = redis st"
  by (simp_all add: join_def)

lemma notify_participants_sel [simp]:
  "calls (notify_participants st sock c m ps) = calls st"
  "timers (notify_participants st sock c m ps) = timers st"
  "rooms (notify_participants st sock c m ps) = rooms st"
  "sockets (notify_participants st sock c m ps) = sockets st"
  "redis (notify_participants st sock c m ps) = redis st"
  unfolding notify_participants_def
  by (induction ps arbitrary: st) simp_all

lemma notify_participants_outbox:
  "\<exists>es. outbox (notify_participants st sock c m ps) = outbox st @ es"
  unfolding notify_participants_def
proof (induction ps arbitrary: st)
  case Nil
  show ?case by simp
next
  case (Cons p ps)
  show ?case
  proof (cases "p_userId p \<noteq> userId sock")
    case True
    obtain es where "outbox (foldl (\<lambda>acc p.
        if p_userId p \<noteq> userId sock
        then emit acc (ToRoom (''user:'' @ p_userId p)) ''message-notification''
               (PNotification c (m_content m) (userId sock))
        else acc) (emit st (ToRoom (''user:'' @ p_userId p)) ''message-notification''
               (PNotification c (m_content m) (userId sock))) ps) = outbox (emit st (ToRoom (''user:'' @ p_userId p)) ''message-notification''
               (PNotification c (m_content m) (userId sock))) @ es"
      using Cons.IH by blast
    then show ?thesis using True by (simp add: emit_def)
  next
    case False
    then show ?thesis using Cons.IH [of st] by simp
  qed
qed

subsection \<open>Timers, connections and rooms under each listener\<close>

lemma on_join_chat_frame:
  "timers (on_join_chat env st sock c) = timers st"
  "sockets (on_join_chat env st sock c) = sockets st"
  "rooms (on_join_chat env st sock c) = (rooms st)(sid sock := insert (''chat:'' @ c) (rooms st (sid sock)))"
  by (simp_all add: on_join_chat_def Let_def split: option.splits)

lemma send_message_save_frame:
  "timers (send_message_save env st sock d ch) = timers st"
  "sockets (send_message_save env st sock d ch) = sockets st"
  "rooms (send_message_save env st sock d ch) = rooms st"
  by (simp_all add: send_message_save_def Let_def split: option.splits sum.splits)

lemma on_send_message_frame:
  "timers (on_send_message env st sock d) = timers st"
  "sockets (on_send_message env st sock d) = sockets st"
  "rooms (on_send_message env st sock d) = rooms st"
  by (simp_all add: on_send_message_def send_message_save_frame split: option.splits sum.splits)

lemma on_typing_frame:
  "timers (on_typing st sock c b) = timers st"
  "sockets (on_typing st sock c b) = sockets st"
  "rooms (on_typing st sock c b) = rooms st"
  by (simp_all add: on_typing_def)

lemma on_read_receipt_frame:
  "timers (on_read_receipt env st sock m c) = timers st"
  "sockets (on_read_receipt env st sock m c) = sockets st"
  "rooms (on_read_receipt env st sock m c) = rooms st"
  by (simp_all add: on_read_receipt_def Let_def split: option.splits)

lemma on_request_private_chat_frame:
  "timers (on_request_private_chat env st sock e d t) = timers st"
  "sockets (on_request_private_chat env st sock e d t) = sockets st"
  "rooms (on_request_private_chat env st sock e d t) = rooms st"
  by (simp_all add: on_request_private_chat_def Let_def split: option.splits sum.splits)

lemma on_accept_chat_request_frame:
  "\<exists>new. timers (on_accept_chat_request env st sock r) = timers st @ new"
  "sockets (on_accept_chat_request env st sock r) = sockets st"
  "rooms (on_accept_chat_request env st sock r) = rooms st"
  by (simp_all add: on_accept_chat_request_def accept_chat_request_start_def startChatTimer_def
      Let_def split: option.splits sum.splits)

lemma on_extend_chat_frame:
  "timers (on_extend_chat env st sock c m) = timers st"
  "sockets (on_extend_chat env st sock c m) = sockets st"
  "rooms (on_extend_chat env st sock c m) = rooms st"
  by (simp_all add: on_extend_chat_def Let_def split: option.splits sum.splits)

lemma on_call_user_frame:
  "timers (on_call_user env st sock u t v) = timers st"
  "sockets (on_call_user env st sock u t v) = sockets st"
  "rooms (on_call_user env st sock u t v) = rooms st"
  by (simp_all add: on_call_user_def Let_def split: option.splits sum.splits bool.splits)

lemma call_frames:
  "timers (on_accept_call st sock c) = timers st"
  "sockets (on_accept_call st sock c) = sockets st"
  "rooms (on_accept_call st sock c) = rooms st"
  "timers (on_reject_call st sock c) = timers st"
  "sockets (on_reject_call st sock c) = sockets st"
  "rooms (on_reject_call st sock c) = rooms st"
  "timers (on_join_call st sock c) = timers st"
  "sockets (on_join_call st sock c) = sockets st"
  "rooms (on_join_call st sock c) = (rooms st)(sid sock := insert c (rooms st (sid sock)))"
  "timers (on_call_signal st sock c sg) = timers st"
  "sockets (on_call_signal st sock c sg) = sockets st"
  "rooms (on_call_signal st sock c sg) = rooms st"
  "timers (on_end_call st sock c) = timers st"
  "sockets (on_end_call st sock c) = sockets st"
  "rooms (on_end_call st sock c) = rooms st"
  by (simp_all add: on_accept_call_def on_reject_call_def on_join_call_def on_call_signal_def on_end_call_def)

lemma on_update_presence_frame:
  "timers (on_update_presence st sock s c) = timers st"
  "sockets (on_update_presence st sock s c) = sockets st"
  "rooms (on_update_presence st sock s c) = rooms st"
  by (simp_all add: on_update_presence_def Let_def split: option.splits)

lemma on_disconnect_frame:
  "timers (on_disconnect st sock) = timers st"
  "sockets (on_disconnect st sock) = sockets st"
  "rooms (on_disconnect st sock) = (rooms st)(sid sock := rooms st (sid sock) \<inter> {sid sock})"
  by (simp_all add: on_disconnect_def Let_def)

lemmas frames = on_join_chat_frame on_send_message_frame on_typing_frame on_read_receipt_frame
  on_request_private_chat_frame on_accept_chat_request_frame(2,3) on_extend_chat_frame on_call_user_frame
  call_frames on_update_presence_frame on_disconnect_frame


lemma handle_rooms_mono:
  assumes "r \<in> rooms st s" and "\<not> (ev = Disconnect \<and> sid sock = s)"
  shows "r \<in> rooms (handle env st sock ev) s"
  using assms by (cases ev) (auto simp: handle_def frames close_socket_def)

lemma handle_sockets_mono:
  assumes "s \<in> set (sockets st)" and "\<not> (ev = Disconnect \<and> sid sock = s)"
  shows "s \<in> set (sockets (handle env st sock ev))"
  using assms by (cases ev) (simp_all add: handle_def frames close_socket_def)

lemma connect_frame:
  "timers (connect env st s tok) = timers st"
  "set (sockets st) \<subseteq> set (sockets (connect env st s tok))"
  "rooms st x \<subseteq> rooms (connect env st s tok) x"
  by (auto simp: connect_def auth_middleware_def on_connection_def open_socket_def Let_def
      split: option.splits sum.splits prod.splits)

subsection \<open>Timer callbacks and the clock\<close>

lemma timer_callback_sel [simp]:
  "timers (timer_callback env st tm) = timers st"
  "sockets (timer_callback env st tm) = sockets st"
  "rooms (timer_callback env st tm) = rooms st"
  by (simp_all add: timer_callback_def Let_def split: option.splits sum.splits)



lemma foldl_timer_callback_timers [simp]:
  "timers (foldl (timer_callback env) st tms) = timers st"
  by (induction tms arbitrary: st) simp_all

lemma foldl_timer_callback_frame [simp]:
  "sockets (foldl (timer_callback env) st tms) = sockets st"
  "rooms (foldl (timer_callback env) st tms) = rooms st"
  by (induction tms arbitrary: st) simp_all




lemma advance_frame:
  "sockets (advance env t st) = sockets st"
  "rooms (advance env t st) = rooms st"
  by (simp_all add: advance_def)




subsection \<open>Runs\<close>

lemma do_step_keeps_member:
  assumes "r \<in> rooms st s \<and> s \<in> set (sockets st)" and "\<not> is_disconnect_of s (snd x)"
  shows "r \<in> rooms (do_step st x) s \<and> s \<in> set (sockets (do_step st x))"
proof (cases x)
  case (Pair env stp)
  show ?thesis
  proof (cases stp)
    case (Connect s' tok)
    then show ?thesis
      using assms(1) Pair connect_frame(2) [where st = st and env = env and s = s' and tok = tok]
        connect_frame(3) [where st = st and env = env and s = s' and tok = tok and x = s]
      by auto
  next
    case (Inbound sock ev)
    then have "\<not> (ev = Disconnect \<and> sid sock = s)"
      using assms(2) Pair by (simp add: is_disconnect_of_def)
    then show ?thesis
      using assms(1) Pair Inbound handle_rooms_mono handle_sockets_mono by simp
  next
    case (Tick t)
    then show ?thesis using assms(1) Pair by (simp add: advance_frame)
  qed
qed

lemma run_keeps_member:
  assumes "r \<in> rooms st s \<and> s \<in> set (sockets st)"
      and "\<forall>x \<in> set steps. \<not> is_disconnect_of s (snd x)"
  shows "r \<in> rooms (run st steps) s \<and> s \<in> set (sockets (run st steps))"
  using assms unfolding run_def
proof (induction steps arbitrary: st)
  case Nil
  then show ?case by simp
next
  case (Cons x xs)
  have "\<not> is_disconnect_of s (snd x)"
    using Cons.prems(2) by simp
  then have "r \<in> rooms (do_step st x) s \<and> s \<in> set (sockets (do_step st x))"
    using Cons.prems(1) do_step_keeps_member by blast
  then show ?case using Cons.IH [of "do_step st x"] Cons.prems(2) by simp
qed

subsection \<open>Evaluation of the examples\<close>

lemmas eval_defs = run_def connect_def auth_middleware_def open_socket_def on_connection_def
  handle_def registered_events_def close_socket_def
  hSet_def expire_def join_def emit_def log_call_def catch_error_def reject_def recipients_of_def
  env_ok_def alice_def bob_def paid_chat_def earner_u2_def hello_def
  two_sockets_def world0_def Let_def

lemma show_nat_0: "show_nat 0 = ''0''"
  by (simp add: show_nat.simps)

lemma in_call_eval:
  "rooms in_call ''s1'' = {''call_0_u1_u2'', ''user:u1'', ''s1''}"
  "rooms in_call ''s2'' = {''call_0_u1_u2'', ''user:u2'', ''s2''}"
  "sockets in_call = [''s1'', ''s2'']"
  by (simp_all add: in_call_def eval_defs on_join_call_def)

lemma filter_removeAll_same: "filter (\<lambda>s. s \<noteq> x) (removeAll x xs) = removeAll x xs"
  by (induction xs) simp_all

subsection \<open>An accepted message\<close>

lemma send_message_accepted:
  assumes "getChat env (d_chatId d) = Inr (Some ch)"
      and "chat_type ch = ''private_paid'' \<longrightarrow> checkChatTimeRemaining env (d_chatId d) = Inr True"
      and "saveMessage env \<lparr>s_chatId = d_chatId d, s_senderId = userId sock,
             s_content = d_content d, s_type = d_type d, s_media = d_media d\<rparr> = Inr m"
  shows "\<exists>cs es.
           calls (on_send_message env st sock d) =
             calls st @ SaveMessage \<lparr>s_chatId = d_chatId d, s_senderId = userId sock,
               s_content = d_content d, s_type = d_type d, s_media = d_media d\<rparr> # cs
         \<and> outbox (on_send_message env st sock d) =
             outbox st @
             \<lparr>target = ToRoom (''chat:'' @ d_chatId d), event = ''new-message'',
              payload = PMessage m,
              recipients = filter (\<lambda>s. ''chat:'' @ d_chatId d \<in> rooms st s) (sockets st)\<rparr> # es"
proof -
  let ?args = "\<lparr>s_chatId = d_chatId d, s_senderId = userId sock,
             s_content = d_content d, s_type = d_type d, s_media = d_media d\<rparr>"
  let ?st2 = "emit (log_call st (SaveMessage ?args)) (ToRoom (''chat:'' @ d_chatId d))
                ''new-message'' (PMessage m)"
  let ?st3 = "log_call ?st2 (UpdateLastMessage (d_chatId d) m)"
  have run: "on_send_message env st sock d = send_message_save env st sock d ch"
    using assms(1,2) by (simp add: on_send_message_def)
  show ?thesis
  proof (cases "updateLastMessage env (d_chatId d) m")
    case None
    obtain es where es: "outbox (notify_participants ?st3 sock (d_chatId d) m (participants ch)) =
        outbox ?st3 @ es"
      using notify_participants_outbox by blast
    have "on_send_message env st sock d =
            notify_participants ?st3 sock (d_chatId d) m (participants ch)"
      using run assms(3) None by (simp add: send_message_save_def Let_def)
    then show ?thesis using es by (simp add: emit_def recipients_of_def)
  next
    case (Some e)
    have "on_send_message env st sock d = catch_error ?st3 sock e"
      using run assms(3) Some by (simp add: send_message_save_def Let_def)
    then show ?thesis by (simp add: catch_error_def emit_def recipients_of_def)
  qed
qed

subsection \<open>Events and service calls of the chat timer\<close>

lemma chatting_eval:
  "sockets chatting = [''s1'', ''s2'']"
  "rooms chatting ''s1'' = {''chat:c1'', ''user:u1'', ''s1''}"
  "rooms chatting ''s2'' = {''chat:c1'', ''user:u2'', ''s2''}"
  "timers chatting = []"
  "now chatting = 0"
  "unhandled chatting = []"
  "ended_events c chatting = 0"
  "end_calls c chatting = 0"
  by (simp_all add: chatting_def env_src_def eval_defs on_join_chat_def ended_events_def
      end_calls_def)

lemma ended_events_emit:
  "ended_events c (emit st tgt ev p) =
     ended_events c st +
     (if ev = ''chat-time-ended'' \<and> tgt = ToRoom (''chat:'' @ c) \<and> p = PChatId c then 1 else 0)"
  by (simp add: ended_events_def emit_def)

lemma ended_events_keep [simp]:
  "ended_events c (log_call st x) = ended_events c st"
  "ended_events c (reject st sock e) = ended_events c st"
  "ended_events c (hSet st k f v) = ended_events c st"
  "ended_events c (expire st k n) = ended_events c st"
  "ended_events c (join st s r) = ended_events c st"
  "ended_events c (catch_error st sock e) = ended_events c st"
  "ended_events c (open_socket st s) = ended_events c st"
  "ended_events c (close_socket st s) = ended_events c st"
  by (simp_all add: ended_events_def log_call_def reject_def hSet_def expire_def join_def
      catch_error_def emit_def open_socket_def close_socket_def)


lemma end_calls_keep [simp]:
  "end_calls c (emit st tgt ev p) = end_calls c st"
  "end_calls c (reject st sock e) = end_calls c st"
  "end_calls c (hSet st k f v) = end_calls c st"
  "end_calls c (expire st k n) = end_calls c st"
  "end_calls c (join st s r) = end_calls c st"
  "end_calls c (catch_error st sock e) = end_calls c st"
  "end_calls c (open_socket st s) = end_calls c st"
  "end_calls c (close_socket st s) = end_calls c st"
  by (simp_all add: end_calls_def open_socket_def close_socket_def)

lemma observers_ignore_timers [simp]:
  "ended_events c (st\<lparr>timers := T\<rparr>) = ended_events c st"
  "end_calls c (st\<lparr>timers := T\<rparr>) = end_calls c st"
  "ended_events c (st\<lparr>now := n\<rparr>) = ended_events c st"
  "end_calls c (st\<lparr>now := n\<rparr>) = end_calls c st"
  by (simp_all add: ended_events_def end_calls_def)

lemma notify_participants_quiet [simp]:
  "ended_events c (notify_participants st sock x m ps) = ended_events c st"
  "end_calls c (notify_participants st sock x m ps) = end_calls c st"
  unfolding notify_participants_def
  by (induction ps arbitrary: st) (simp_all add: ended_events_emit)












subsection \<open>The shape of two listeners\<close>






section \<open>Sending a message\<close>

text \<open>
  Claim C1. A \<^verbatim>\<open>send-message\<close> for a paid chat (type \<^verbatim>\<open>private_paid\<close>) whose time
  check answers that no time remains ends in \<^verbatim>\<open>chat-error\<close> with the message
  \<^verbatim>\<open>Chat time expired\<close>, emitted to the sending connection alone: the resulting state
  differs from the old one in that one emission only, so nothing was saved and nothing reached
  the room. The check comes before the save: whenever the listener calls a writing service at
  all, the chat was found and either was not paid or the check had answered that time remains.
\<close>

theorem send_message_paid_expired:
  assumes "getChat env (d_chatId d) = Inr (Some ch)"
      and "chat_type ch = ''private_paid''"
      and "checkChatTimeRemaining env (d_chatId d) = Inr False"
  shows "on_send_message env st sock d =
           st\<lparr>outbox := outbox st @
                [\<lparr>target = ToSocket (sid sock), event = ''chat-error'',
                  payload = PError ''Chat time expired'', recipients = [sid sock]\<rparr>]\<rparr>
       \<and> (\<forall>env' st' sock' d'.
            calls (on_send_message env' st' sock' d') \<noteq> calls st' \<longrightarrow>
            (\<exists>ch'. getChat env' (d_chatId d') = Inr (Some ch') \<and>
               (chat_type ch' = ''private_paid'' \<longrightarrow>
                  checkChatTimeRemaining env' (d_chatId d') = Inr True)))"
proof -
  have first: "on_send_message env st sock d =
           st\<lparr>outbox := outbox st @
                [\<lparr>target = ToSocket (sid sock), event = ''chat-error'',
                  payload = PError ''Chat time expired'', recipients = [sid sock]\<rparr>]\<rparr>"
    using assms by (simp add: on_send_message_def emit_def recipients_of_def)
  have order: "calls (on_send_message env' st' sock' d') \<noteq> calls st' \<longrightarrow>
            (\<exists>ch'. getChat env' (d_chatId d') = Inr (Some ch') \<and>
               (chat_type ch' = ''private_paid'' \<longrightarrow>
                  checkChatTimeRemaining env' (d_chatId d') = Inr True))" for env' st' sock' d'
    by (auto simp: on_send_message_def split: sum.splits option.splits)
  show ?thesis using first order by blast
qed

text \<open>
  C1 at the example: the second connection writes to the paid chat after its time ran out.
\<close>

theorem send_message_paid_expired_witness:
  "on_send_message (env_ok\<lparr>checkChatTimeRemaining := (\<lambda>c. Inr False)\<rparr>) two_sockets bob hello =
     two_sockets\<lparr>outbox :=
        [\<lparr>target = ToSocket ''s2'', event = ''chat-error'',
          payload = PError ''Chat time expired'', recipients = [''s2'']\<rparr>]\<rparr>"
  using send_message_paid_expired
          [of "env_ok\<lparr>checkChatTimeRemaining := (\<lambda>c. Inr False)\<rparr>" hello paid_chat two_sockets bob]
  by (simp add: env_ok_def hello_def paid_chat_def two_sockets_def bob_def world0_def)

text \<open>
  Claim C7 as stated fails: the third connection has not joined the room \<^verbatim>\<open>chat:c1\<close> and
  its user is no participant of the chat, yet its message is saved and reaches both members;
  no error is emitted.
\<close>

theorem send_message_outsider_counterexample:
  "''chat:c1'' \<notin> rooms three_sockets (sid carol)
   \<and> userId carol \<notin> set (map p_userId (participants paid_chat))
   \<and> on_send_message env_ok three_sockets carol hello =
      three_sockets\<lparr>
        outbox :=
          [\<lparr>target = ToRoom ''chat:c1'', event = ''new-message'',
            payload = PMessage \<lparr>m_id = ''m1'', m_content = ''hello''\<rparr>,
            recipients = [''s1'', ''s2'']\<rparr>,
           \<lparr>target = ToRoom ''user:u1'', event = ''message-notification'',
            payload = PNotification ''c1'' ''hello'' ''u3'', recipients = [''s1'']\<rparr>,
           \<lparr>target = ToRoom ''user:u2'', event = ''message-notification'',
            payload = PNotification ''c1'' ''hello'' ''u3'', recipients = [''s2'']\<rparr>],
        calls :=
          [SaveMessage \<lparr>s_chatId = ''c1'', s_senderId = ''u3'', s_content = ''hello'',
                         s_type = ''text'', s_media = None\<rparr>,
           UpdateLastMessage ''c1'' \<lparr>m_id = ''m1'', m_content = ''hello''\<rparr>]\<rparr>"
  by (simp add: on_send_message_def send_message_save_def notify_participants_def eval_defs
      carol_def three_sockets_def)

text \<open>
  Claim C7, amended. \<^verbatim>\<open>send-message\<close> does not look at the sender's membership; its
  first step is the lookup of the chat. When the chat is found, is not paid or has time left,
  and \<^verbatim>\<open>saveMessage\<close> succeeds, the message is saved under the sender's id and
  \<^verbatim>\<open>new-message\<close> is emitted to the connections that are in the room, whoever sent it.
\<close>

theorem send_message_ignores_membership:
  assumes "getChat env (d_chatId d) = Inr (Some ch)"
      and "chat_type ch = ''private_paid'' \<longrightarrow> checkChatTimeRemaining env (d_chatId d) = Inr True"
      and "saveMessage env \<lparr>s_chatId = d_chatId d, s_senderId = userId sock,
             s_content = d_content d, s_type = d_type d, s_media = d_media d\<rparr> = Inr m"
  shows "\<exists>cs es.
           calls (on_send_message env st sock d) =
             calls st @ SaveMessage \<lparr>s_chatId = d_chatId d, s_senderId = userId sock,
               s_content = d_content d, s_type = d_type d, s_media = d_media d\<rparr> # cs
         \<and> outbox (on_send_message env st sock d) =
             outbox st @
             \<lparr>target = ToRoom (''chat:'' @ d_chatId d), event = ''new-message'',
              payload = PMessage m,
              recipients = filter (\<lambda>s. ''chat:'' @ d_chatId d \<in> rooms st s) (sockets st)\<rparr> # es"
  using send_message_accepted [OF assms] .

text \<open>
  C7 amended at the example of a sender outside the room.
\<close>

theorem send_message_ignores_membership_witness:
  "''chat:c1'' \<notin> rooms two_sockets (sid alice)
   \<and> (\<exists>cs es.
        calls (on_send_message env_ok two_sockets alice hello) =
          SaveMessage \<lparr>s_chatId = ''c1'', s_senderId = ''u1'', s_content = ''hello'',
                        s_type = ''text'', s_media = None\<rparr> # cs
      \<and> outbox (on_send_message env_ok two_sockets alice hello) =
          \<lparr>target = ToRoom ''chat:c1'', event = ''new-message'',
           payload = PMessage \<lparr>m_id = ''m1'', m_content = ''hello''\<rparr>,
           recipients = [''s2'']\<rparr> # es)"
  using send_message_ignores_membership
          [of env_ok hello paid_chat alice "\<lparr>m_id = ''m1'', m_content = ''hello''\<rparr>" two_sockets]
  by (simp add: env_ok_def hello_def paid_chat_def two_sockets_def alice_def world0_def)

section \<open>Extending a paid chat\<close>



section \<open>The chat timer\<close>





section \<open>Disconnecting\<close>

text \<open>
  Claim C4 as stated fails: a user connects as \<^verbatim>\<open>s1\<close> and again as \<^verbatim>\<open>s2\<close>, so that
  Redis names \<^verbatim>\<open>s2\<close>; the disconnect of the stale \<^verbatim>\<open>s1\<close> turns the status from
  \<^verbatim>\<open>online\<close> to \<^verbatim>\<open>offline\<close>.
\<close>

theorem stale_disconnect_counterexample:
  "redis reconnected ''user:u1'' ''socketId'' = Some (RStr ''s2'')
   \<and> sid alice \<noteq> ''s2''
   \<and> redis reconnected ''user:u1'' ''status'' = Some (RStr ''online'')
   \<and> redis (handle env_ok reconnected alice Disconnect) ''user:u1'' ''status'' =
       Some (RStr ''offline'')"
  by (simp add: reconnected_def eval_defs on_disconnect_def)

text \<open>
  Claim C4, amended. Every disconnect sets the status of the connection's user to
  \<^verbatim>\<open>offline\<close> and \<^verbatim>\<open>lastSeen\<close> to the current instant, whatever connection Redis
  names for the user; the stored \<^verbatim>\<open>socketId\<close> is neither read nor changed.
\<close>

theorem disconnect_always_sets_offline:
  "redis (handle env st sock Disconnect) (''user:'' @ userId sock) ''status'' =
     Some (RStr ''offline'')
   \<and> redis (handle env st sock Disconnect) (''user:'' @ userId sock) ''lastSeen'' =
       Some (RTime (now st))
   \<and> redis (handle env st sock Disconnect) (''user:'' @ userId sock) ''socketId'' =
       redis st (''user:'' @ userId sock) ''socketId''"
  by (simp add: handle_def registered_events_def on_disconnect_def close_socket_def hSet_def
      emit_def Let_def)

text \<open>
  Claim C5 as stated fails: two connections are in a call room and one disconnects; the only
  event emitted is the \<^verbatim>\<open>user-status\<close> broadcast, so no call is ended and the other party
  gets no \<^verbatim>\<open>call-ended\<close>.
\<close>

theorem disconnect_call_counterexample:
  "''call_0_u1_u2'' \<in> rooms in_call ''s1'' \<and> ''call_0_u1_u2'' \<in> rooms in_call ''s2''
   \<and> outbox (handle env_ok in_call alice Disconnect) =
       outbox in_call @
       [\<lparr>target = BroadcastExcept ''s1'', event = ''user-status'',
         payload = PUserStatus ''u1'' ''offline'', recipients = [''s2'']\<rparr>]"
  by (simp add: in_call_eval handle_def registered_events_def on_disconnect_def close_socket_def
      hSet_def emit_def recipients_of_def alice_def Let_def)

text \<open>
  Claim C5, amended. After the disconnect the connection is in no room and every other
  connection's rooms are as before: socket.io has taken it out of all its rooms before the
  listener runs, whose own loop over \<^verbatim>\<open>socket.rooms\<close> then finds nothing to leave. The
  listener emits one event, \<^verbatim>\<open>user-status\<close> offline to the remaining connections, calls
  no service and touches no timer: it ends no call and sends no \<^verbatim>\<open>call-ended\<close>.
\<close>

theorem disconnect_leaves_rooms_only:
  "rooms (handle env st sock Disconnect) = (rooms st)(sid sock := {})
   \<and> sockets (handle env st sock Disconnect) = removeAll (sid sock) (sockets st)
   \<and> outbox (handle env st sock Disconnect) =
       outbox st @
       [\<lparr>target = BroadcastExcept (sid sock), event = ''user-status'',
         payload = PUserStatus (userId sock) ''offline'',
         recipients = removeAll (sid sock) (sockets st)\<rparr>]
   \<and> calls (handle env st sock Disconnect) = calls st
   \<and> timers (handle env st sock Disconnect) = timers st"
  by (simp add: handle_def registered_events_def on_disconnect_def close_socket_def hSet_def
      emit_def recipients_of_def Let_def filter_removeAll_same)

section \<open>Calls\<close>

text \<open>
  Claim C6 at a failing input. The callee is connected; \<^verbatim>\<open>call-user\<close> reads
  \<^verbatim>\<open>UserService\<close>, which the module binds nowhere, outside any \<^verbatim>\<open>try\<close>: nothing is
  emitted, neither the error nor the invitation and the acknowledgment the listener goes on
  to, and the rejection is left unhandled. The same unbound name inside
  \<^verbatim>\<open>request-private-chat\<close>, which has a \<^verbatim>\<open>try\<close>, is reported to the requester as
  \<^verbatim>\<open>error\<close>.
\<close>

theorem call_user_throws_uncaught:
  "''s2'' \<in> set (sockets chatting) \<and> ''user:u2'' \<in> rooms chatting ''s2''
   \<and> handle env_src chatting alice (CallUser ''u2'' ''voice'' False) =
       chatting\<lparr>unhandled := [(''s1'', ReferenceError ''UserService is not defined'')]\<rparr>
   \<and> handle env_src chatting alice (RequestPrivateChat ''u2'' 10 ''chat'') =
       chatting\<lparr>outbox := outbox chatting @
         [\<lparr>target = ToSocket ''s1'', event = ''error'',
           payload = PError ''UserService is not defined'', recipients = [''s1'']\<rparr>]\<rparr>"
  by (simp add: chatting_eval handle_def registered_events_def on_call_user_def
      on_request_private_chat_def env_src_def env_ok_def reject_def catch_error_def emit_def
      recipients_of_def alice_def)

section \<open>Failures in a listener\<close>

text \<open>
  Claim C8 at a failing input. \<^verbatim>\<open>markAsRead\<close> throws inside \<^verbatim>\<open>read-receipt\<close>: no
  event at all is emitted, so the originating connection gets no error, and the rejection is
  left unhandled. The same failure of \<^verbatim>\<open>saveMessage\<close> inside \<^verbatim>\<open>send-message\<close>, which
  has a \<^verbatim>\<open>try\<close>, is turned into \<^verbatim>\<open>error\<close> for the sender alone.
\<close>

theorem read_receipt_failure_not_reported:
  "outbox (handle (env_ok\<lparr>markAsRead := (\<lambda>m u. Some (Error ''storage down''))\<rparr>) two_sockets bob
             (ReadReceipt ''m1'' ''c1'')) = []
   \<and> unhandled (handle (env_ok\<lparr>markAsRead := (\<lambda>m u. Some (Error ''storage down''))\<rparr>) two_sockets bob
             (ReadReceipt ''m1'' ''c1'')) = [(''s2'', Error ''storage down'')]
   \<and> outbox (handle (env_ok\<lparr>saveMessage := (\<lambda>a. Inl (Error ''storage down''))\<rparr>) two_sockets bob
             (SendMessage hello)) =
       [\<lparr>target = ToSocket ''s2'', event = ''error'', payload = PError ''storage down'',
         recipients = [''s2'']\<rparr>]"
  by (simp add: on_read_receipt_def on_send_message_def send_message_save_def eval_defs)

section \<open>Leaving a chat\<close>

text \<open>
  Claim C10. No listener is registered for \<^verbatim>\<open>leave-chat\<close>, so the event changes nothing
  in the state. A connection that is in a chat room and emits it is still in the room after
  any further run without its own disconnect, and a message then accepted for that chat is
  emitted as \<^verbatim>\<open>new-message\<close> to it among the recipients.
\<close>

theorem leave_chat_has_no_listener:
  "''leave-chat'' \<notin> set registered_events
   \<and> handle env st sock (Other ''leave-chat'' p) = st
   \<and> (''chat:'' @ d_chatId d \<in> rooms st (sid sock) \<and> sid sock \<in> set (sockets st)
      \<and> (\<forall>x \<in> set steps. \<not> is_disconnect_of (sid sock) (snd x))
      \<and> getChat env' (d_chatId d) = Inr (Some ch)
      \<and> (chat_type ch = ''private_paid'' \<longrightarrow>
           checkChatTimeRemaining env' (d_chatId d) = Inr True)
      \<and> saveMessage env' \<lparr>s_chatId = d_chatId d, s_senderId = userId sender,
             s_content = d_content d, s_type = d_type d, s_media = d_media d\<rparr> = Inr m
      \<longrightarrow> (\<exists>em \<in> set (outbox (handle env'
                (run st ((env, Inbound sock (Other ''leave-chat'' p)) # steps))
                sender (SendMessage d))).
             event em = ''new-message'' \<and> payload em = PMessage m
             \<and> sid sock \<in> set (recipients em)))"
proof -
  have a: "''leave-chat'' \<notin> set registered_events"
    by (simp add: registered_events_def)
  have b: "handle env st sock (Other ''leave-chat'' p) = st"
    by (simp add: handle_def registered_events_def)
  have c: "\<exists>em \<in> set (outbox (handle env'
                (run st ((env, Inbound sock (Other ''leave-chat'' p)) # steps))
                sender (SendMessage d))).
             event em = ''new-message'' \<and> payload em = PMessage m
             \<and> sid sock \<in> set (recipients em)"
    if mem: "''chat:'' @ d_chatId d \<in> rooms st (sid sock) \<and> sid sock \<in> set (sockets st)"
    and steps: "\<forall>x \<in> set steps. \<not> is_disconnect_of (sid sock) (snd x)"
    and ok: "getChat env' (d_chatId d) = Inr (Some ch)"
      "chat_type ch = ''private_paid'' \<longrightarrow> checkChatTimeRemaining env' (d_chatId d) = Inr True"
      "saveMessage env' \<lparr>s_chatId = d_chatId d, s_senderId = userId sender,
             s_content = d_content d, s_type = d_type d, s_media = d_media d\<rparr> = Inr m"
  proof -
    let ?w = "run st ((env, Inbound sock (Other ''leave-chat'' p)) # steps)"
    have "?w = run st steps"
      using b by (simp add: run_def)
    then have still: "''chat:'' @ d_chatId d \<in> rooms ?w (sid sock) \<and> sid sock \<in> set (sockets ?w)"
      using run_keeps_member [OF mem steps] by simp
    obtain cs es where
      "outbox (on_send_message env' ?w sender d) =
         outbox ?w @
         \<lparr>target = ToRoom (''chat:'' @ d_chatId d), event = ''new-message'',
          payload = PMessage m,
          recipients = filter (\<lambda>s. ''chat:'' @ d_chatId d \<in> rooms ?w s) (sockets ?w)\<rparr> # es"
      using send_message_accepted [OF ok, of ?w] by blast
    then show ?thesis
      using still by (simp add: handle_def registered_events_def)
  qed
  show ?thesis using a b c by blast
qed

text \<open>
  C10 at the example: the second connection leaves the chat view, the first types and then
  writes.
\<close>

theorem leave_chat_has_no_listener_witness:
  "handle env_ok two_sockets bob (Other ''leave-chat'' ''c1'') = two_sockets
   \<and> (\<exists>em \<in> set (outbox (handle env_ok
          (run two_sockets [(env_ok, Inbound bob (Other ''leave-chat'' ''c1'')),
                            (env_ok, Inbound alice (Typing ''c1'' True))])
          alice (SendMessage hello))).
        event em = ''new-message''
        \<and> payload em = PMessage \<lparr>m_id = ''m1'', m_content = ''hello''\<rparr>
        \<and> ''s2'' \<in> set (recipients em))"
  using leave_chat_has_no_listener
          [where env = env_ok and st = two_sockets and sock = bob and p = "''c1''" and d = hello
             and steps = "[(env_ok, Inbound alice (Typing ''c1'' True))]" and env' = env_ok
             and ch = paid_chat and sender = alice
             and m = "\<lparr>m_id = ''m1'', m_content = ''hello''\<rparr>"]
  by (simp add: is_disconnect_of_def env_ok_def hello_def paid_chat_def two_sockets_def
      world0_def bob_def alice_def)

end
